theory Spec2Isabelle
  imports Main "HOL-Library.Word"
begin

unbundle bit_operations_syntax

section \<open>The System Control Block fault registers\<close>

text \<open>
  \<^verbatim>\<open>include/arch/arm/cortex_m/scb.h\<close> reads and writes the fault registers of the
  memory-mapped structure \<^verbatim>\<open>__scs.scb\<close>: the hard-fault status register
  \<^verbatim>\<open>hfsr\<close> (32 bits), the three sub-registers \<^verbatim>\<open>cfsr.byte.mmfsr\<close> (8 bits),
  \<^verbatim>\<open>cfsr.byte.bfsr\<close> (8 bits) and \<^verbatim>\<open>cfsr.byte.ufsr\<close> (16 bits) of the configurable
  fault status register, and the two fault address registers \<^verbatim>\<open>mmfar\<close> and
  \<^verbatim>\<open>bfar\<close> (32 bits each). The state of the model is this register block.
\<close>

record scb =
  hfsr :: "32 word"
  mmfsr :: "8 word"
  bfsr :: "8 word"
  ufsr :: "16 word"
  mmfar :: "32 word"
  bfar :: "32 word"

subsection \<open>Bit-field layout\<close>

text \<open>
  Modelled from the spec: the bit-field declarations of \<^verbatim>\<open>scs.h\<close> (the unions behind
  \<^verbatim>\<open>hfsr.bit\<close>, \<^verbatim>\<open>mmfsr.bit\<close>, \<^verbatim>\<open>bfsr.bit\<close> and \<^verbatim>\<open>ufsr.bit\<close>) are not part of the
  source tree. The spec demands a bit-exact layout matching the architecture reference
  manual of the core (ARMv7-M); the positions below are the ones of that manual, under the
  field names \<^verbatim>\<open>scb.h\<close> uses. Bits 2, 5 and 6 of the two byte registers, bits 4 to 7 and
  10 to 15 of the usage-fault register and bits 0 and 2 to 29 of the hard-fault register are
  reserved; bits 30 and 31 of the hard-fault register are the forced-escalation and
  debug-event flags, which \<^verbatim>\<open>scb.h\<close> does not decode.
\<close>

definition vecttbl :: nat where "vecttbl = 1"

definition iaccviol :: nat where "iaccviol = 0"
definition daccviol :: nat where "daccviol = 1"
definition munstkerr :: nat where "munstkerr = 3"
definition mstkerr :: nat where "mstkerr = 4"
definition mmarvalid :: nat where "mmarvalid = 7"

definition ibuserr :: nat where "ibuserr = 0"
definition preciserr :: nat where "preciserr = 1"
definition impreciserr :: nat where "impreciserr = 2"
definition unstkerr :: nat where "unstkerr = 3"
definition stkerr :: nat where "stkerr = 4"
definition bfarvalid :: nat where "bfarvalid = 7"

definition undefinstr :: nat where "undefinstr = 0"
definition invstate :: nat where "invstate = 1"
definition invpc :: nat where "invpc = 2"
definition nocp :: nat where "nocp = 3"
definition unaligned :: nat where "unaligned = 8"
definition divbyzero :: nat where "divbyzero = 9"

subsection \<open>Register accesses\<close>

text \<open>
  A load returns the current value of the register and leaves the block as it is: the
  status registers are not read-to-clear. Every operation of the interface is a function
  from the register block to its result and the block afterwards, so that what a read
  does to the block is part of the model.

  A store to a status register is write-one-to-clear, as the comments of \<^verbatim>\<open>scb.h\<close> say of
  HFSR, CFSR/MMFSR, CFSR/BFSR and CFSR/UFSR: every bit written as 1 is cleared, every bit
  written as 0 keeps its value. The registers are hardware registers, so this holds of
  every store that reaches them, whichever C statement issues it.
\<close>

type_synonym 'a scb_op = "scb \<Rightarrow> 'a \<times> scb"

definition w1c :: "'a::len word \<Rightarrow> 'a word \<Rightarrow> 'a word" where
  "w1c old v = old AND NOT v"

definition load_hfsr :: "32 word scb_op" where
  "load_hfsr s = (hfsr s, s)"

definition load_mmfsr :: "8 word scb_op" where
  "load_mmfsr s = (mmfsr s, s)"

definition load_bfsr :: "8 word scb_op" where
  "load_bfsr s = (bfsr s, s)"

definition load_ufsr :: "16 word scb_op" where
  "load_ufsr s = (ufsr s, s)"

definition load_mmfar :: "32 word scb_op" where
  "load_mmfar s = (mmfar s, s)"

definition load_bfar :: "32 word scb_op" where
  "load_bfar s = (bfar s, s)"

definition store_hfsr :: "32 word \<Rightarrow> scb \<Rightarrow> scb" where
  "store_hfsr v s = s\<lparr>hfsr := w1c (hfsr s) v\<rparr>"

definition store_mmfsr :: "8 word \<Rightarrow> scb \<Rightarrow> scb" where
  "store_mmfsr v s = s\<lparr>mmfsr := w1c (mmfsr s) v\<rparr>"

definition store_bfsr :: "8 word \<Rightarrow> scb \<Rightarrow> scb" where
  "store_bfsr v s = s\<lparr>bfsr := w1c (bfsr s) v\<rparr>"

definition store_ufsr :: "16 word \<Rightarrow> scb \<Rightarrow> scb" where
  "store_ufsr v s = s\<lparr>ufsr := w1c (ufsr s) v\<rparr>"

text \<open>
  The C expressions of the interface: a one-bit field read as an \<^verbatim>\<open>int\<close>, the logical
  negation \<^verbatim>\<open>!\<close>, and the value of a register converted to \<^verbatim>\<open>int\<close>. A bit-field has
  no address of its own: an assignment to it loads the containing register, replaces the
  bit in the loaded value (\<open>bitfield_assign\<close>) and stores the whole value back with
  the register's store. \<^verbatim>\<open>_ScbMemFaultMmfarReset\<close> and \<^verbatim>\<open>_ScbBusFaultBfarReset\<close> are
  the two routines that assign to a bit-field.
\<close>

definition bitfield :: "'a::len word \<Rightarrow> nat \<Rightarrow> int" where
  "bitfield v n = (if bit v n then 1 else 0)"

definition lnot :: "int \<Rightarrow> int" where
  "lnot x = (if x = 0 then 1 else 0)"

definition bitfield_assign :: "'a::len word \<Rightarrow> nat \<Rightarrow> bool \<Rightarrow> 'a word" where
  "bitfield_assign v n b = (if b then set_bit n v else unset_bit n v)"

section \<open>The interface of scb.h\<close>

subsection \<open>Hard faults\<close>

definition ScbHardFaultIsBusErrOnVectorRead :: "int scb_op" where
  "ScbHardFaultIsBusErrOnVectorRead s =
     (case load_hfsr s of (v, s') \<Rightarrow> (bitfield v vecttbl, s'))"

text \<open>
  \<^verbatim>\<open>return __scs.scb.hfsr.val = 0xffff;\<close> stores the constant and returns the value
  assigned.
\<close>

definition ScbHardFaultAllFaultsReset :: "int scb_op" where
  "ScbHardFaultAllFaultsReset s = (uint (0xffff :: 32 word), store_hfsr 0xffff s)"

subsection \<open>Memory-protection faults\<close>

definition ScbIsMemFault :: "int scb_op" where
  "ScbIsMemFault s = (case load_mmfsr s of (v, s') \<Rightarrow> (lnot (lnot (uint v)), s'))"

definition ScbMemFaultIsMmfarValid :: "int scb_op" where
  "ScbMemFaultIsMmfarValid s =
     (case load_mmfsr s of (v, s') \<Rightarrow> (lnot (lnot (bitfield v mmarvalid)), s'))"

definition ScbMemFaultMmfarReset :: "scb \<Rightarrow> scb" where
  "ScbMemFaultMmfarReset s =
     (case load_mmfsr s of (v, s') \<Rightarrow> store_mmfsr (bitfield_assign v mmarvalid False) s')"

definition ScbMemFaultAllFaultsReset :: "scb \<Rightarrow> scb" where
  "ScbMemFaultAllFaultsReset s = store_mmfsr 0xfe s"

definition ScbMemFaultIsStacking :: "int scb_op" where
  "ScbMemFaultIsStacking s =
     (case load_mmfsr s of (v, s') \<Rightarrow> (lnot (lnot (bitfield v mstkerr)), s'))"

definition ScbMemFaultIsUnstacking :: "int scb_op" where
  "ScbMemFaultIsUnstacking s =
     (case load_mmfsr s of (v, s') \<Rightarrow> (lnot (lnot (bitfield v munstkerr)), s'))"

definition ScbMemFaultIsDataAccessViolation :: "int scb_op" where
  "ScbMemFaultIsDataAccessViolation s =
     (case load_mmfsr s of (v, s') \<Rightarrow> (lnot (lnot (bitfield v daccviol)), s'))"

definition ScbMemFaultIsInstrAccessViolation :: "int scb_op" where
  "ScbMemFaultIsInstrAccessViolation s =
     (case load_mmfsr s of (v, s') \<Rightarrow> (lnot (lnot (bitfield v iaccviol)), s'))"

definition ScbMemFaultAddrGet :: "32 word scb_op" where
  "ScbMemFaultAddrGet s = load_mmfar s"

subsection \<open>Bus faults\<close>

definition ScbIsBusFault :: "int scb_op" where
  "ScbIsBusFault s = (case load_bfsr s of (v, s') \<Rightarrow> (lnot (lnot (uint v)), s'))"

definition ScbBusFaultIsBfarValid :: "int scb_op" where
  "ScbBusFaultIsBfarValid s =
     (case load_bfsr s of (v, s') \<Rightarrow> (lnot (lnot (bitfield v bfarvalid)), s'))"

definition ScbBusFaultBfarReset :: "scb \<Rightarrow> scb" where
  "ScbBusFaultBfarReset s =
     (case load_bfsr s of (v, s') \<Rightarrow> store_bfsr (bitfield_assign v bfarvalid False) s')"

definition ScbBusFaultAllFaultsReset :: "scb \<Rightarrow> scb" where
  "ScbBusFaultAllFaultsReset s = store_bfsr 0xfe s"

definition ScbBusFaultIsStacking :: "int scb_op" where
  "ScbBusFaultIsStacking s =
     (case load_bfsr s of (v, s') \<Rightarrow> (lnot (lnot (bitfield v stkerr)), s'))"

definition ScbBusFaultIsUnstacking :: "int scb_op" where
  "ScbBusFaultIsUnstacking s =
     (case load_bfsr s of (v, s') \<Rightarrow> (lnot (lnot (bitfield v unstkerr)), s'))"

definition ScbBusFaultIsImprecise :: "int scb_op" where
  "ScbBusFaultIsImprecise s =
     (case load_bfsr s of (v, s') \<Rightarrow> (lnot (lnot (bitfield v impreciserr)), s'))"

definition ScbBusFaultIsPrecise :: "int scb_op" where
  "ScbBusFaultIsPrecise s =
     (case load_bfsr s of (v, s') \<Rightarrow> (lnot (lnot (bitfield v preciserr)), s'))"

definition ScbBusFaultIsInstrBusErr :: "int scb_op" where
  "ScbBusFaultIsInstrBusErr s =
     (case load_bfsr s of (v, s') \<Rightarrow> (lnot (lnot (bitfield v ibuserr)), s'))"

definition ScbBusFaultAddrGet :: "32 word scb_op" where
  "ScbBusFaultAddrGet s = load_bfar s"

subsection \<open>Usage faults\<close>

definition ScbIsUsageFault :: "int scb_op" where
  "ScbIsUsageFault s = (case load_ufsr s of (v, s') \<Rightarrow> (lnot (lnot (uint v)), s'))"

definition ScbUsageFaultIsDivByZero :: "int scb_op" where
  "ScbUsageFaultIsDivByZero s =
     (case load_ufsr s of (v, s') \<Rightarrow> (lnot (lnot (bitfield v divbyzero)), s'))"

definition ScbUsageFaultIsUnaligned :: "int scb_op" where
  "ScbUsageFaultIsUnaligned s =
     (case load_ufsr s of (v, s') \<Rightarrow> (lnot (lnot (bitfield v unaligned)), s'))"

definition ScbUsageFaultIsNoCp :: "int scb_op" where
  "ScbUsageFaultIsNoCp s =
     (case load_ufsr s of (v, s') \<Rightarrow> (lnot (lnot (bitfield v nocp)), s'))"

definition ScbUsageFaultIsInvalidPcLoad :: "int scb_op" where
  "ScbUsageFaultIsInvalidPcLoad s =
     (case load_ufsr s of (v, s') \<Rightarrow> (lnot (lnot (bitfield v invpc)), s'))"

definition ScbUsageFaultIsInvalidState :: "int scb_op" where
  "ScbUsageFaultIsInvalidState s =
     (case load_ufsr s of (v, s') \<Rightarrow> (lnot (lnot (bitfield v invstate)), s'))"

definition ScbUsageFaultIsUndefinedInstr :: "int scb_op" where
  "ScbUsageFaultIsUndefinedInstr s =
     (case load_ufsr s of (v, s') \<Rightarrow> (lnot (lnot (bitfield v undefinstr)), s'))"

definition ScbUsageFaultAllFaultsReset :: "scb \<Rightarrow> scb" where
  "ScbUsageFaultAllFaultsReset s = store_ufsr 0xffff s"

section \<open>Vocabulary of the properties\<close>

text \<open>
  The flags of a view, each with its position in the register and the routine of
  \<^verbatim>\<open>scb.h\<close> that reads it. The address-validity flag is counted among the flags of the
  memory and bus views.
\<close>

datatype mem_flag = IACCVIOL | DACCVIOL | MUNSTKERR | MSTKERR | MMARVALID

fun mem_flag_bit :: "mem_flag \<Rightarrow> nat" where
  "mem_flag_bit IACCVIOL = iaccviol"
| "mem_flag_bit DACCVIOL = daccviol"
| "mem_flag_bit MUNSTKERR = munstkerr"
| "mem_flag_bit MSTKERR = mstkerr"
| "mem_flag_bit MMARVALID = mmarvalid"

fun mem_flag_pred :: "mem_flag \<Rightarrow> int scb_op" where
  "mem_flag_pred IACCVIOL = ScbMemFaultIsInstrAccessViolation"
| "mem_flag_pred DACCVIOL = ScbMemFaultIsDataAccessViolation"
| "mem_flag_pred MUNSTKERR = ScbMemFaultIsUnstacking"
| "mem_flag_pred MSTKERR = ScbMemFaultIsStacking"
| "mem_flag_pred MMARVALID = ScbMemFaultIsMmfarValid"

datatype bus_flag = IBUSERR | PRECISERR | IMPRECISERR | UNSTKERR | STKERR | BFARVALID

fun bus_flag_bit :: "bus_flag \<Rightarrow> nat" where
  "bus_flag_bit IBUSERR = ibuserr"
| "bus_flag_bit PRECISERR = preciserr"
| "bus_flag_bit IMPRECISERR = impreciserr"
| "bus_flag_bit UNSTKERR = unstkerr"
| "bus_flag_bit STKERR = stkerr"
| "bus_flag_bit BFARVALID = bfarvalid"

fun bus_flag_pred :: "bus_flag \<Rightarrow> int scb_op" where
  "bus_flag_pred IBUSERR = ScbBusFaultIsInstrBusErr"
| "bus_flag_pred PRECISERR = ScbBusFaultIsPrecise"
| "bus_flag_pred IMPRECISERR = ScbBusFaultIsImprecise"
| "bus_flag_pred UNSTKERR = ScbBusFaultIsUnstacking"
| "bus_flag_pred STKERR = ScbBusFaultIsStacking"
| "bus_flag_pred BFARVALID = ScbBusFaultIsBfarValid"

datatype usage_flag = UNDEFINSTR | INVSTATE | INVPC | NOCP | UNALIGNED | DIVBYZERO

fun usage_flag_bit :: "usage_flag \<Rightarrow> nat" where
  "usage_flag_bit UNDEFINSTR = undefinstr"
| "usage_flag_bit INVSTATE = invstate"
| "usage_flag_bit INVPC = invpc"
| "usage_flag_bit NOCP = nocp"
| "usage_flag_bit UNALIGNED = unaligned"
| "usage_flag_bit DIVBYZERO = divbyzero"

fun usage_flag_pred :: "usage_flag \<Rightarrow> int scb_op" where
  "usage_flag_pred UNDEFINSTR = ScbUsageFaultIsUndefinedInstr"
| "usage_flag_pred INVSTATE = ScbUsageFaultIsInvalidState"
| "usage_flag_pred INVPC = ScbUsageFaultIsInvalidPcLoad"
| "usage_flag_pred NOCP = ScbUsageFaultIsNoCp"
| "usage_flag_pred UNALIGNED = ScbUsageFaultIsUnaligned"
| "usage_flag_pred DIVBYZERO = ScbUsageFaultIsDivByZero"

text \<open>
  Two values of a register differ only in bit \<open>a\<close> when the second is the first, or
  the first with bit \<open>a\<close> inverted.
\<close>

definition differ_only_at :: "nat \<Rightarrow> 'a::len word \<Rightarrow> 'a word \<Rightarrow> bool" where
  "differ_only_at a w w' = (w' = w \<or> w' = flip_bit a w)"

text \<open>
  The reserved bits of the usage-fault register under the layout above: bits 4 to 7 and 10
  to 15. On the ARMv7-M core, the only one \<^verbatim>\<open>scb.h\<close> is compiled for, they read as
  zero.
\<close>

definition ufsr_reserved :: "16 word" where
  "ufsr_reserved = 0xFCF0"

text \<open>The register block with no fault recorded and both address registers zero.\<close>

definition scb_idle :: scb where
  "scb_idle = \<lparr>hfsr = 0, mmfsr = 0, bfsr = 0, ufsr = 0, mmfar = 0, bfar = 0\<rparr>"

section \<open>Auxiliary facts\<close>

lemmas layout_defs =
  vecttbl_def iaccviol_def daccviol_def munstkerr_def mstkerr_def mmarvalid_def
  ibuserr_def preciserr_def impreciserr_def unstkerr_def stkerr_def bfarvalid_def
  undefinstr_def invstate_def invpc_def nocp_def unaligned_def divbyzero_def

lemmas op_defs =
  load_hfsr_def load_mmfsr_def load_bfsr_def load_ufsr_def load_mmfar_def load_bfar_def
  store_hfsr_def store_mmfsr_def store_bfsr_def store_ufsr_def w1c_def
  bitfield_def lnot_def bitfield_assign_def

lemmas mem_pred_defs =
  ScbMemFaultIsMmfarValid_def ScbMemFaultIsStacking_def ScbMemFaultIsUnstacking_def
  ScbMemFaultIsDataAccessViolation_def ScbMemFaultIsInstrAccessViolation_def

lemmas bus_pred_defs =
  ScbBusFaultIsBfarValid_def ScbBusFaultIsStacking_def ScbBusFaultIsUnstacking_def
  ScbBusFaultIsImprecise_def ScbBusFaultIsPrecise_def ScbBusFaultIsInstrBusErr_def

lemmas usage_pred_defs =
  ScbUsageFaultIsDivByZero_def ScbUsageFaultIsUnaligned_def ScbUsageFaultIsNoCp_def
  ScbUsageFaultIsInvalidPcLoad_def ScbUsageFaultIsInvalidState_def
  ScbUsageFaultIsUndefinedInstr_def

lemma bit_w1c: "bit (w1c old v) n = (bit old n \<and> \<not> bit v n)"
  by (auto simp add: w1c_def bit_simps dest: bit_imp_le_length)

lemma nat_lt8: "n < (8::nat) \<longleftrightarrow> n \<in> {0, 1, 2, 3, 4, 5, 6, 7}"
  by (simp, arith)

lemma nat_lt16:
  "n < (16::nat) \<longleftrightarrow> n \<in> {0, 1, 2, 3, 4, 5, 6, 7} \<or> n \<in> {8, 9, 10, 11, 12, 13, 14, 15}"
  by (simp, arith)

lemma bit_fe: "bit (0xfe :: 8 word) n = (1 \<le> n \<and> n < 8)"
proof (cases "n < 8")
  case True
  then show ?thesis by (auto simp add: nat_lt8)
next
  case False
  then show ?thesis by (auto dest: bit_imp_le_length)
qed

lemma w1c_all16: "w1c (w :: 16 word) 0xffff = 0"
proof -
  have "(0xffff :: 16 word) = - 1" by simp
  then show ?thesis by (simp add: w1c_def del: word_eq_numeral_iff_iszero)
qed

text \<open>What the three view-wide resets and the two invalidations leave in the register.\<close>

lemma mem_reset_bit:
  "bit (mmfsr (ScbMemFaultAllFaultsReset s)) n = (n = 0 \<and> bit (mmfsr s) 0)"
proof -
  have "bit (mmfsr (ScbMemFaultAllFaultsReset s)) n
      = (bit (mmfsr s) n \<and> \<not> bit (0xfe :: 8 word) n)"
    by (simp add: ScbMemFaultAllFaultsReset_def store_mmfsr_def bit_w1c)
  also have "\<dots> = (bit (mmfsr s) n \<and> \<not> (1 \<le> n \<and> n < 8))"
    by (simp only: bit_fe)
  also have "\<dots> = (n = 0 \<and> bit (mmfsr s) 0)"
    by (cases "n = 0") (auto dest: bit_imp_le_length)
  finally show ?thesis .
qed

lemma bus_reset_bit:
  "bit (bfsr (ScbBusFaultAllFaultsReset s)) n = (n = 0 \<and> bit (bfsr s) 0)"
proof -
  have "bit (bfsr (ScbBusFaultAllFaultsReset s)) n
      = (bit (bfsr s) n \<and> \<not> bit (0xfe :: 8 word) n)"
    by (simp add: ScbBusFaultAllFaultsReset_def store_bfsr_def bit_w1c)
  also have "\<dots> = (bit (bfsr s) n \<and> \<not> (1 \<le> n \<and> n < 8))"
    by (simp only: bit_fe)
  also have "\<dots> = (n = 0 \<and> bit (bfsr s) 0)"
    by (cases "n = 0") (auto dest: bit_imp_le_length)
  finally show ?thesis .
qed

lemma usage_reset_zero: "ufsr (ScbUsageFaultAllFaultsReset s) = 0"
  by (simp add: ScbUsageFaultAllFaultsReset_def store_ufsr_def w1c_all16)

lemma mmfar_reset_value: "mmfsr (ScbMemFaultMmfarReset s) = mmfsr s AND 0x80"
  unfolding ScbMemFaultMmfarReset_def op_defs layout_defs
  by (simp, rule bit_word_eqI) (auto simp add: bit_simps nat_lt8)

lemma bfar_reset_value: "bfsr (ScbBusFaultBfarReset s) = bfsr s AND 0x80"
  unfolding ScbBusFaultBfarReset_def op_defs layout_defs
  by (simp, rule bit_word_eqI) (auto simp add: bit_simps nat_lt8)

text \<open>Each flag routine returns 1 or 0 according to its bit alone.\<close>

lemma mem_flag_pred_bit:
  "fst (mem_flag_pred b s) = (if bit (mmfsr s) (mem_flag_bit b) then 1 else 0)"
  by (cases b) (simp_all add: mem_pred_defs op_defs)

lemma bus_flag_pred_bit:
  "fst (bus_flag_pred b s) = (if bit (bfsr s) (bus_flag_bit b) then 1 else 0)"
  by (cases b) (simp_all add: bus_pred_defs op_defs)

lemma usage_flag_pred_bit:
  "fst (usage_flag_pred b s) = (if bit (ufsr s) (usage_flag_bit b) then 1 else 0)"
  by (cases b) (simp_all add: usage_pred_defs op_defs)

lemma mem_flag_bit_inj: "mem_flag_bit a = mem_flag_bit b \<Longrightarrow> a = b"
  by (cases a; cases b) (simp_all add: layout_defs)

lemma bus_flag_bit_inj: "bus_flag_bit a = bus_flag_bit b \<Longrightarrow> a = b"
  by (cases a; cases b) (simp_all add: layout_defs)

lemma usage_flag_bit_inj: "usage_flag_bit a = usage_flag_bit b \<Longrightarrow> a = b"
  by (cases a; cases b) (simp_all add: layout_defs)

text \<open>
  \<^const>\<open>differ_only_at\<close> says what it should: the two values agree on every other bit.
\<close>

lemma differ_only_at_iff:
  "differ_only_at a w w' \<longleftrightarrow> (\<forall>n. n \<noteq> a \<longrightarrow> bit w' n = bit w n)"
proof
  assume "differ_only_at a w w'"
  then show "\<forall>n. n \<noteq> a \<longrightarrow> bit w' n = bit w n"
    by (auto simp add: differ_only_at_def bit_flip_bit_iff dest: bit_imp_le_length)
next
  assume h: "\<forall>n. n \<noteq> a \<longrightarrow> bit w' n = bit w n"
  show "differ_only_at a w w'"
  proof (cases "bit w' a = bit w a")
    case True
    with h have "w' = w" by (intro bit_eqI) metis
    then show ?thesis by (simp add: differ_only_at_def)
  next
    case False
    with h have "w' = flip_bit a w"
      by (intro bit_eqI) (auto simp add: bit_flip_bit_iff dest: bit_imp_possible_bit)
    then show ?thesis by (simp add: differ_only_at_def)
  qed
qed

lemma bit_ufsr_reserved:
  "bit ufsr_reserved n = (n \<in> {4, 5, 6, 7, 10, 11, 12, 13, 14, 15})"
proof (cases "n < 16")
  case True
  then show ?thesis by (auto simp add: ufsr_reserved_def nat_lt16)
next
  case False
  then show ?thesis by (auto dest: bit_imp_le_length)
qed

lemma ufsr_nonzero_iff:
  assumes "w AND ufsr_reserved = 0"
  shows "w \<noteq> 0 \<longleftrightarrow> bit w 0 \<or> bit w 1 \<or> bit w 2 \<or> bit w 3 \<or> bit w 8 \<or> bit w 9"
proof
  assume "w \<noteq> 0"
  then obtain n where n: "bit w n" by (auto simp add: bit_eq_iff)
  then have "n < 16" by (auto dest: bit_imp_le_length)
  have "\<not> bit (w AND ufsr_reserved) n" using assms by simp
  then have "\<not> bit ufsr_reserved n" using n by (simp add: bit_and_iff)
  then have "n \<notin> {4, 5, 6, 7, 10, 11, 12, 13, 14, 15}" unfolding bit_ufsr_reserved .
  with \<open>n < 16\<close> have "n \<in> {0, 1, 2, 3, 8, 9}"
    by (auto simp add: nat_lt16)
  with n show "bit w 0 \<or> bit w 1 \<or> bit w 2 \<or> bit w 3 \<or> bit w 8 \<or> bit w 9" by auto
next
  assume "bit w 0 \<or> bit w 1 \<or> bit w 2 \<or> bit w 3 \<or> bit w 8 \<or> bit w 9"
  then show "w \<noteq> 0" by auto
qed

section \<open>The view-wide resets\<close>

text \<open>
  What the resets do achieve. The usage-fault reset writes ones to all 16 bits of its
  register, so every flag routine of the view and the aggregate return 0 afterwards. The
  memory and bus resets write \<^verbatim>\<open>0xfe\<close>: every flag other than the one in bit 0 reads 0
  afterwards.
\<close>

lemma usage_reset_clears_flags:
  "fst (usage_flag_pred f (ScbUsageFaultAllFaultsReset s)) = 0"
  by (simp add: usage_flag_pred_bit usage_reset_zero)

lemma usage_reset_clears_aggregate:
  "fst (ScbIsUsageFault (ScbUsageFaultAllFaultsReset s)) = 0"
  by (simp add: ScbIsUsageFault_def load_ufsr_def lnot_def usage_reset_zero)

lemma mem_reset_clears_upper_flags:
  "f \<noteq> IACCVIOL \<Longrightarrow> fst (mem_flag_pred f (ScbMemFaultAllFaultsReset s)) = 0"
  by (simp add: mem_flag_pred_bit mem_reset_bit) (cases f; simp add: layout_defs)

lemma bus_reset_clears_upper_flags:
  "f \<noteq> IBUSERR \<Longrightarrow> fst (bus_flag_pred f (ScbBusFaultAllFaultsReset s)) = 0"
  by (simp add: bus_flag_pred_bit bus_reset_bit) (cases f; simp add: layout_defs)

text \<open>
  Claim C1: for the memory-fault, bus-fault and usage-fault views and every register
  state, every cause predicate of the view returns false right after the reset-all
  operation of the view.

  The code does not do this for the memory and bus views. Their resets store \<^verbatim>\<open>0xfe\<close>
  to a write-one-to-clear register, so bit 0 is written as 0 and keeps its value; bit 0 is
  the instruction-access-violation flag of MMFSR and the instruction-bus-error flag of
  BFSR. The theorem runs the code on the register block whose only set bit is that flag:
  the flag routine returns 1 before the reset and still 1 after it, and so does the
  aggregate routine of the view.
\<close>

theorem C1_reset_all_keeps_bit0:
  "fst (ScbMemFaultIsInstrAccessViolation (scb_idle\<lparr>mmfsr := 0x01\<rparr>)) = 1 \<and>
   fst (ScbMemFaultIsInstrAccessViolation
          (ScbMemFaultAllFaultsReset (scb_idle\<lparr>mmfsr := 0x01\<rparr>))) = 1 \<and>
   fst (ScbIsMemFault (ScbMemFaultAllFaultsReset (scb_idle\<lparr>mmfsr := 0x01\<rparr>))) = 1 \<and>
   fst (ScbBusFaultIsInstrBusErr (scb_idle\<lparr>bfsr := 0x01\<rparr>)) = 1 \<and>
   fst (ScbBusFaultIsInstrBusErr
          (ScbBusFaultAllFaultsReset (scb_idle\<lparr>bfsr := 0x01\<rparr>))) = 1 \<and>
   fst (ScbIsBusFault (ScbBusFaultAllFaultsReset (scb_idle\<lparr>bfsr := 0x01\<rparr>))) = 1"
  by (simp add: ScbMemFaultIsInstrAccessViolation_def ScbMemFaultAllFaultsReset_def
      ScbIsMemFault_def ScbBusFaultIsInstrBusErr_def ScbBusFaultAllFaultsReset_def
      ScbIsBusFault_def op_defs layout_defs scb_idle_def)

text \<open>
  Claim C10: for every register state, \<^verbatim>\<open>_ScbMemFaultIsMmfarValid\<close> returns false after
  \<^verbatim>\<open>_ScbMemFaultAllFaultsReset\<close>, and \<^verbatim>\<open>_ScbBusFaultIsBfarValid\<close> returns false after
  \<^verbatim>\<open>_ScbBusFaultAllFaultsReset\<close>: the mask \<^verbatim>\<open>0xfe\<close> has bit 7, the validity flag, set.
\<close>

theorem C10_reset_all_invalidates_address:
  "fst (ScbMemFaultIsMmfarValid (ScbMemFaultAllFaultsReset s)) = 0 \<and>
   fst (ScbBusFaultIsBfarValid (ScbBusFaultAllFaultsReset s)) = 0"
  by (simp add: ScbMemFaultIsMmfarValid_def ScbBusFaultIsBfarValid_def load_mmfsr_def
      load_bfsr_def bitfield_def lnot_def mem_reset_bit bus_reset_bit layout_defs)

text \<open>
  Claim C6: for every register state in which the divide-by-zero and the
  undefined-instruction flags are both set (both routines return 1),
  \<^verbatim>\<open>_ScbUsageFaultAllFaultsReset\<close> gives a state in which \<^verbatim>\<open>_ScbUsageFaultIsDivByZero\<close>
  and \<^verbatim>\<open>_ScbUsageFaultIsUndefinedInstr\<close> both return 0.
\<close>

theorem C6_usage_reset_scenario:
  "fst (ScbUsageFaultIsDivByZero s) = 1 \<Longrightarrow> fst (ScbUsageFaultIsUndefinedInstr s) = 1 \<Longrightarrow>
   fst (ScbUsageFaultIsDivByZero (ScbUsageFaultAllFaultsReset s)) = 0 \<and>
   fst (ScbUsageFaultIsUndefinedInstr (ScbUsageFaultAllFaultsReset s)) = 0"
  by (simp add: ScbUsageFaultIsDivByZero_def ScbUsageFaultIsUndefinedInstr_def
      load_ufsr_def bitfield_def lnot_def usage_reset_zero)

theorem C6_usage_reset_scenario_witness:
  "fst (ScbUsageFaultIsDivByZero (scb_idle\<lparr>ufsr := 0x0201\<rparr>)) = 1 \<and>
   fst (ScbUsageFaultIsUndefinedInstr (scb_idle\<lparr>ufsr := 0x0201\<rparr>)) = 1 \<and>
   fst (ScbUsageFaultIsDivByZero
          (ScbUsageFaultAllFaultsReset (scb_idle\<lparr>ufsr := 0x0201\<rparr>))) = 0 \<and>
   fst (ScbUsageFaultIsUndefinedInstr
          (ScbUsageFaultAllFaultsReset (scb_idle\<lparr>ufsr := 0x0201\<rparr>))) = 0"
proof -
  have d: "fst (ScbUsageFaultIsDivByZero (scb_idle\<lparr>ufsr := 0x0201\<rparr>)) = 1"
    by (simp add: ScbUsageFaultIsDivByZero_def op_defs layout_defs)
  have u: "fst (ScbUsageFaultIsUndefinedInstr (scb_idle\<lparr>ufsr := 0x0201\<rparr>)) = 1"
    by (simp add: ScbUsageFaultIsUndefinedInstr_def op_defs layout_defs)
  from d u C6_usage_reset_scenario [OF d u] show ?thesis by simp
qed

text \<open>
  Claim C3: for every state of the hard-fault status register,
  \<^verbatim>\<open>_ScbHardFaultAllFaultsReset\<close> clears every sticky bit of the register; afterwards
  \<^verbatim>\<open>_ScbHardFaultIsBusErrOnVectorRead\<close> returns false and no sticky bit remains set.

  The code clears the vector-read flag but not the whole register: it stores
  \<^verbatim>\<open>0xffff\<close> to a 32-bit write-one-to-clear register, so bits 16 to 31 keep their
  values. The theorem runs the code on the block in which the vector-read flag (bit 1) and
  the forced-escalation flag (bit 30) are set: the vector-read routine returns 0 after the
  reset, and bit 30 is still set.
\<close>

theorem C3_hard_reset_keeps_upper_half:
  "fst (ScbHardFaultIsBusErrOnVectorRead
          (snd (ScbHardFaultAllFaultsReset (scb_idle\<lparr>hfsr := 0x40000002\<rparr>)))) = 0 \<and>
   hfsr (snd (ScbHardFaultAllFaultsReset (scb_idle\<lparr>hfsr := 0x40000002\<rparr>))) = 0x40000000"
  by (simp add: ScbHardFaultIsBusErrOnVectorRead_def ScbHardFaultAllFaultsReset_def
      op_defs layout_defs scb_idle_def)

section \<open>Invalidating the fault address\<close>

text \<open>
  Claim C2: for every register state, \<^verbatim>\<open>_ScbMemFaultMmfarReset\<close> and
  \<^verbatim>\<open>_ScbBusFaultBfarReset\<close> clear only the address-validity flag; every other cause
  predicate of the view returns the same value before and after the call.

  The code does the opposite on a write-one-to-clear register. The assignment
  \<^verbatim>\<open>bit.mmarvalid = 0\<close> stores the byte just loaded with bit 7 replaced by 0: the zero
  in bit 7 leaves the validity flag as it was, and every cause flag that was set is
  written back as a one and thereby cleared (\<open>mmfar_reset_value\<close>,
  \<open>bfar_reset_value\<close>). The theorem runs both routines on the block in which the
  stacking flag (bit 4) and the validity flag (bit 7) are set: the stacking routine returns
  1 before and 0 after, and the validity routine still returns 1.
\<close>

theorem C2_invalidate_clears_causes_not_validity:
  "fst (ScbMemFaultIsStacking (scb_idle\<lparr>mmfsr := 0x90\<rparr>)) = 1 \<and>
   fst (ScbMemFaultIsStacking (ScbMemFaultMmfarReset (scb_idle\<lparr>mmfsr := 0x90\<rparr>))) = 0 \<and>
   fst (ScbMemFaultIsMmfarValid (ScbMemFaultMmfarReset (scb_idle\<lparr>mmfsr := 0x90\<rparr>))) = 1 \<and>
   fst (ScbBusFaultIsStacking (scb_idle\<lparr>bfsr := 0x90\<rparr>)) = 1 \<and>
   fst (ScbBusFaultIsStacking (ScbBusFaultBfarReset (scb_idle\<lparr>bfsr := 0x90\<rparr>))) = 0 \<and>
   fst (ScbBusFaultIsBfarValid (ScbBusFaultBfarReset (scb_idle\<lparr>bfsr := 0x90\<rparr>))) = 1"
  by (simp add: ScbMemFaultIsStacking_def ScbMemFaultIsMmfarValid_def
      ScbBusFaultIsStacking_def ScbBusFaultIsBfarValid_def ScbMemFaultMmfarReset_def
      ScbBusFaultBfarReset_def op_defs layout_defs scb_idle_def)


section \<open>Decoding scenarios\<close>

text \<open>
  Claim C4: in the register state in which exactly the stacking flag and the
  address-validity flag of the memory-fault register are set and the memory-fault address
  register holds \<^verbatim>\<open>0x20001000\<close>, \<^verbatim>\<open>_ScbMemFaultIsStacking\<close> returns true,
  \<^verbatim>\<open>_ScbMemFaultIsUnstacking\<close>, \<^verbatim>\<open>_ScbMemFaultIsDataAccessViolation\<close> and
  \<^verbatim>\<open>_ScbMemFaultIsInstrAccessViolation\<close> return false, \<^verbatim>\<open>_ScbMemFaultIsMmfarValid\<close>
  returns true and \<^verbatim>\<open>_ScbMemFaultAddrGet\<close> returns \<^verbatim>\<open>0x20001000\<close>. The other registers
  of the block are arbitrary.
\<close>

theorem C4_mem_stacking_scenario:
  "mmfsr s = push_bit mstkerr 1 OR push_bit mmarvalid 1 \<Longrightarrow> mmfar s = 0x20001000 \<Longrightarrow>
   fst (ScbMemFaultIsStacking s) = 1 \<and>
   fst (ScbMemFaultIsUnstacking s) = 0 \<and>
   fst (ScbMemFaultIsDataAccessViolation s) = 0 \<and>
   fst (ScbMemFaultIsInstrAccessViolation s) = 0 \<and>
   fst (ScbMemFaultIsMmfarValid s) = 1 \<and>
   fst (ScbMemFaultAddrGet s) = 0x20001000"
  by (simp add: mem_pred_defs ScbMemFaultAddrGet_def op_defs layout_defs)

theorem C4_mem_stacking_scenario_witness:
  "mmfsr (scb_idle\<lparr>mmfsr := 0x90, mmfar := 0x20001000\<rparr>)
     = push_bit mstkerr 1 OR push_bit mmarvalid 1 \<and>
   mmfar (scb_idle\<lparr>mmfsr := 0x90, mmfar := 0x20001000\<rparr>) = 0x20001000 \<and>
   fst (ScbMemFaultIsStacking (scb_idle\<lparr>mmfsr := 0x90, mmfar := 0x20001000\<rparr>)) = 1 \<and>
   fst (ScbMemFaultIsUnstacking (scb_idle\<lparr>mmfsr := 0x90, mmfar := 0x20001000\<rparr>)) = 0 \<and>
   fst (ScbMemFaultIsMmfarValid (scb_idle\<lparr>mmfsr := 0x90, mmfar := 0x20001000\<rparr>)) = 1 \<and>
   fst (ScbMemFaultAddrGet (scb_idle\<lparr>mmfsr := 0x90, mmfar := 0x20001000\<rparr>)) = 0x20001000"
  using C4_mem_stacking_scenario [of "scb_idle\<lparr>mmfsr := 0x90, mmfar := 0x20001000\<rparr>"]
  by (simp add: layout_defs)

text \<open>
  Claim C5: in the register state in which exactly the imprecise-error flag of the
  bus-fault register is set and the validity flag is clear, \<^verbatim>\<open>_ScbBusFaultIsImprecise\<close>
  returns true and \<^verbatim>\<open>_ScbBusFaultIsBfarValid\<close> returns false; more generally, the
  bus-fault address is valid only when the fault is precise, never for an imprecise error.

  The general part does not hold of the code: the validity routine reads bit 7 and nothing
  else. In the block with the imprecise-error and validity flags set and the precise-error
  flag clear, the address is reported valid for a fault that is imprecise and not precise.
\<close>

theorem C5_valid_address_without_precise_fault:
  "fst (ScbBusFaultIsBfarValid (scb_idle\<lparr>bfsr := 0x84\<rparr>)) = 1 \<and>
   fst (ScbBusFaultIsImprecise (scb_idle\<lparr>bfsr := 0x84\<rparr>)) = 1 \<and>
   fst (ScbBusFaultIsPrecise (scb_idle\<lparr>bfsr := 0x84\<rparr>)) = 0"
  by (simp add: bus_pred_defs op_defs layout_defs scb_idle_def)

text \<open>
  Claim C5 as amended: in the register state in which exactly the imprecise-error flag
  is set, \<^verbatim>\<open>_ScbBusFaultIsImprecise\<close> returns true and \<^verbatim>\<open>_ScbBusFaultIsBfarValid\<close>
  returns false; in every register state \<^verbatim>\<open>_ScbBusFaultIsBfarValid\<close> returns 1 or 0
  according to the validity bit of the register alone, whatever the precise-error and
  imprecise-error bits are.
\<close>

theorem C5_bus_imprecise_scenario:
  "(bfsr s = push_bit impreciserr 1 \<longrightarrow>
      fst (ScbBusFaultIsImprecise s) = 1 \<and> fst (ScbBusFaultIsBfarValid s) = 0) \<and>
   fst (ScbBusFaultIsBfarValid s) = (if bit (bfsr s) bfarvalid then 1 else 0)"
  by (simp add: bus_pred_defs op_defs layout_defs)

theorem C5_bus_imprecise_scenario_witness:
  "bfsr (scb_idle\<lparr>bfsr := 0x04\<rparr>) = push_bit impreciserr 1 \<and>
   fst (ScbBusFaultIsImprecise (scb_idle\<lparr>bfsr := 0x04\<rparr>)) = 1 \<and>
   fst (ScbBusFaultIsBfarValid (scb_idle\<lparr>bfsr := 0x04\<rparr>)) = 0"
  using C5_bus_imprecise_scenario [of "scb_idle\<lparr>bfsr := 0x04\<rparr>"]
  by (simp add: layout_defs)

section \<open>The usage-fault aggregate\<close>

text \<open>
  The aggregate routine tests the whole 16-bit register; each of the six flag routines
  tests its own bit.
\<close>

lemma usage_aggregate_nonzero: "(fst (ScbIsUsageFault s) = 1) = (ufsr s \<noteq> 0)"
  by (simp add: ScbIsUsageFault_def load_ufsr_def lnot_def uint_0_iff)

lemma usage_flags_bits:
  "(fst (ScbUsageFaultIsDivByZero s) = 1 \<or> fst (ScbUsageFaultIsUnaligned s) = 1 \<or>
    fst (ScbUsageFaultIsNoCp s) = 1 \<or> fst (ScbUsageFaultIsInvalidPcLoad s) = 1 \<or>
    fst (ScbUsageFaultIsInvalidState s) = 1 \<or> fst (ScbUsageFaultIsUndefinedInstr s) = 1)
   = (bit (ufsr s) 0 \<or> bit (ufsr s) 1 \<or> bit (ufsr s) 2 \<or> bit (ufsr s) 3 \<or>
      bit (ufsr s) 8 \<or> bit (ufsr s) 9)"
  by (auto simp add: usage_pred_defs load_ufsr_def bitfield_def lnot_def layout_defs)

text \<open>
  Claim C7: for every state of the usage-fault register, \<^verbatim>\<open>_ScbIsUsageFault\<close> returns
  true if and only if at least one of the six usage-fault predicates
  (\<^verbatim>\<open>_ScbUsageFaultIsDivByZero\<close>, \<^verbatim>\<open>_ScbUsageFaultIsUnaligned\<close>,
  \<^verbatim>\<open>_ScbUsageFaultIsNoCp\<close>, \<^verbatim>\<open>_ScbUsageFaultIsInvalidPcLoad\<close>,
  \<^verbatim>\<open>_ScbUsageFaultIsInvalidState\<close>, \<^verbatim>\<open>_ScbUsageFaultIsUndefinedInstr\<close>) returns true.

  The states of the usage-fault register are those the ARMv7-M core can hold: its
  reserved bits read as zero, and no event of the hardware and no routine of \<^verbatim>\<open>scb.h\<close>
  sets one. The hypothesis of the theorem says this of the state; the equivalence is then
  the claim's, for every such state.
\<close>

theorem C7_usage_aggregate:
  "ufsr s AND ufsr_reserved = 0 \<Longrightarrow>
   (fst (ScbIsUsageFault s) = 1) =
   (fst (ScbUsageFaultIsDivByZero s) = 1 \<or> fst (ScbUsageFaultIsUnaligned s) = 1 \<or>
    fst (ScbUsageFaultIsNoCp s) = 1 \<or> fst (ScbUsageFaultIsInvalidPcLoad s) = 1 \<or>
    fst (ScbUsageFaultIsInvalidState s) = 1 \<or> fst (ScbUsageFaultIsUndefinedInstr s) = 1)"
  unfolding usage_flags_bits usage_aggregate_nonzero
  by (rule ufsr_nonzero_iff)

theorem C7_usage_aggregate_witness:
  "ufsr (scb_idle\<lparr>ufsr := 0x0200\<rparr>) AND ufsr_reserved = 0 \<and>
   fst (ScbUsageFaultIsDivByZero (scb_idle\<lparr>ufsr := 0x0200\<rparr>)) = 1 \<and>
   fst (ScbIsUsageFault (scb_idle\<lparr>ufsr := 0x0200\<rparr>)) = 1"
proof -
  have r: "ufsr (scb_idle\<lparr>ufsr := 0x0200\<rparr>) AND ufsr_reserved = 0"
    by (simp add: ufsr_reserved_def)
  have d: "fst (ScbUsageFaultIsDivByZero (scb_idle\<lparr>ufsr := 0x0200\<rparr>)) = 1"
    by (simp add: ScbUsageFaultIsDivByZero_def op_defs layout_defs)
  from r d C7_usage_aggregate [OF r] show ?thesis
    by blast
qed

section \<open>Independence of the flags\<close>

text \<open>
  Claim C8: the cause predicates of a view are independent. For two distinct flags A and
  B of the same view and two register states that differ only in bit A of the view's
  register, the routine for flag B returns the same value in both states. The statement
  covers the memory, bus and usage views (the hard-fault view has a single flag) and counts
  the address-validity flag among the flags.
\<close>

theorem C8_flags_independent:
  "(a \<noteq> b \<longrightarrow> differ_only_at (mem_flag_bit a) (mmfsr s) (mmfsr s') \<longrightarrow>
      fst (mem_flag_pred b s') = fst (mem_flag_pred b s)) \<and>
   (c \<noteq> d \<longrightarrow> differ_only_at (bus_flag_bit c) (bfsr t) (bfsr t') \<longrightarrow>
      fst (bus_flag_pred d t') = fst (bus_flag_pred d t)) \<and>
   (e \<noteq> f \<longrightarrow> differ_only_at (usage_flag_bit e) (ufsr u) (ufsr u') \<longrightarrow>
      fst (usage_flag_pred f u') = fst (usage_flag_pred f u))"
proof (intro conjI impI)
  assume "a \<noteq> b" and "differ_only_at (mem_flag_bit a) (mmfsr s) (mmfsr s')"
  then show "fst (mem_flag_pred b s') = fst (mem_flag_pred b s)"
    using mem_flag_bit_inj [of b a] by (auto simp add: mem_flag_pred_bit differ_only_at_iff)
next
  assume "c \<noteq> d" and "differ_only_at (bus_flag_bit c) (bfsr t) (bfsr t')"
  then show "fst (bus_flag_pred d t') = fst (bus_flag_pred d t)"
    using bus_flag_bit_inj [of d c] by (auto simp add: bus_flag_pred_bit differ_only_at_iff)
next
  assume "e \<noteq> f" and "differ_only_at (usage_flag_bit e) (ufsr u) (ufsr u')"
  then show "fst (usage_flag_pred f u') = fst (usage_flag_pred f u)"
    using usage_flag_bit_inj [of f e]
    by (auto simp add: usage_flag_pred_bit differ_only_at_iff)
qed

theorem C8_flags_independent_witness:
  "MSTKERR \<noteq> DACCVIOL \<and>
   differ_only_at (mem_flag_bit MSTKERR)
     (mmfsr (scb_idle\<lparr>mmfsr := 0x02\<rparr>)) (mmfsr (scb_idle\<lparr>mmfsr := 0x12\<rparr>)) \<and>
   fst (mem_flag_pred DACCVIOL (scb_idle\<lparr>mmfsr := 0x12\<rparr>))
     = fst (mem_flag_pred DACCVIOL (scb_idle\<lparr>mmfsr := 0x02\<rparr>)) \<and>
   IMPRECISERR \<noteq> PRECISERR \<and>
   differ_only_at (bus_flag_bit IMPRECISERR)
     (bfsr (scb_idle\<lparr>bfsr := 0x02\<rparr>)) (bfsr (scb_idle\<lparr>bfsr := 0x06\<rparr>)) \<and>
   fst (bus_flag_pred PRECISERR (scb_idle\<lparr>bfsr := 0x06\<rparr>))
     = fst (bus_flag_pred PRECISERR (scb_idle\<lparr>bfsr := 0x02\<rparr>)) \<and>
   DIVBYZERO \<noteq> INVSTATE \<and>
   differ_only_at (usage_flag_bit DIVBYZERO)
     (ufsr (scb_idle\<lparr>ufsr := 0x0002\<rparr>)) (ufsr (scb_idle\<lparr>ufsr := 0x0202\<rparr>)) \<and>
   fst (usage_flag_pred INVSTATE (scb_idle\<lparr>ufsr := 0x0202\<rparr>))
     = fst (usage_flag_pred INVSTATE (scb_idle\<lparr>ufsr := 0x0002\<rparr>))"
proof -
  have m: "differ_only_at (mem_flag_bit MSTKERR)
     (mmfsr (scb_idle\<lparr>mmfsr := 0x02\<rparr>)) (mmfsr (scb_idle\<lparr>mmfsr := 0x12\<rparr>))"
    by (simp add: differ_only_at_def layout_defs)
  have b: "differ_only_at (bus_flag_bit IMPRECISERR)
     (bfsr (scb_idle\<lparr>bfsr := 0x02\<rparr>)) (bfsr (scb_idle\<lparr>bfsr := 0x06\<rparr>))"
    by (simp add: differ_only_at_def layout_defs)
  have u: "differ_only_at (usage_flag_bit DIVBYZERO)
     (ufsr (scb_idle\<lparr>ufsr := 0x0002\<rparr>)) (ufsr (scb_idle\<lparr>ufsr := 0x0202\<rparr>))"
    by (simp add: differ_only_at_def layout_defs)
  from m b u
    C8_flags_independent [of MSTKERR DACCVIOL "scb_idle\<lparr>mmfsr := 0x02\<rparr>"
      "scb_idle\<lparr>mmfsr := 0x12\<rparr>" IMPRECISERR PRECISERR "scb_idle\<lparr>bfsr := 0x02\<rparr>"
      "scb_idle\<lparr>bfsr := 0x06\<rparr>" DIVBYZERO INVSTATE "scb_idle\<lparr>ufsr := 0x0002\<rparr>"
      "scb_idle\<lparr>ufsr := 0x0202\<rparr>"]
  show ?thesis by simp
qed

section \<open>Reads leave the register block alone\<close>

text \<open>
  Claim C9: every predicate and every address accessor of every view is a pure read. For
  every register state, the register block after the call is the block before it; this
  includes \<^verbatim>\<open>_ScbMemFaultAddrGet\<close> and \<^verbatim>\<open>_ScbBusFaultAddrGet\<close> in states whose
  validity flag is clear.
\<close>

theorem C9_reads_are_pure:
  "snd (ScbHardFaultIsBusErrOnVectorRead s) = s \<and>
   snd (ScbIsMemFault s) = s \<and>
   snd (ScbMemFaultIsMmfarValid s) = s \<and>
   snd (ScbMemFaultIsStacking s) = s \<and>
   snd (ScbMemFaultIsUnstacking s) = s \<and>
   snd (ScbMemFaultIsDataAccessViolation s) = s \<and>
   snd (ScbMemFaultIsInstrAccessViolation s) = s \<and>
   snd (ScbMemFaultAddrGet s) = s \<and>
   snd (ScbIsBusFault s) = s \<and>
   snd (ScbBusFaultIsBfarValid s) = s \<and>
   snd (ScbBusFaultIsStacking s) = s \<and>
   snd (ScbBusFaultIsUnstacking s) = s \<and>
   snd (ScbBusFaultIsImprecise s) = s \<and>
   snd (ScbBusFaultIsPrecise s) = s \<and>
   snd (ScbBusFaultIsInstrBusErr s) = s \<and>
   snd (ScbBusFaultAddrGet s) = s \<and>
   snd (ScbIsUsageFault s) = s \<and>
   snd (ScbUsageFaultIsDivByZero s) = s \<and>
   snd (ScbUsageFaultIsUnaligned s) = s \<and>
   snd (ScbUsageFaultIsNoCp s) = s \<and>
   snd (ScbUsageFaultIsInvalidPcLoad s) = s \<and>
   snd (ScbUsageFaultIsInvalidState s) = s \<and>
   snd (ScbUsageFaultIsUndefinedInstr s) = s"
  by (simp add: ScbHardFaultIsBusErrOnVectorRead_def ScbIsMemFault_def ScbIsBusFault_def
      ScbIsUsageFault_def ScbMemFaultAddrGet_def ScbBusFaultAddrGet_def
      mem_pred_defs bus_pred_defs usage_pred_defs
      load_hfsr_def load_mmfsr_def load_bfsr_def load_ufsr_def load_mmfar_def load_bfar_def)


end
